theory Spec2Isabelle
  imports Main "HOL-Library.Word"
begin

unbundle bit_operations_syntax

section \<open>Go values used by package s3vfs\<close>

text \<open>
  Go's \<open>int64\<close> is a 64-bit word read as two's complement: \<open>+\<close>, \<open>-\<close> and \<open>*\<close> wrap,
  and the comparisons of the source are the signed ones (\<open>\<le>s\<close>, \<open><s\<close>).
  \<open>os.FileMode\<close> is a \<open>uint32\<close>.
\<close>

type_synonym int64 = "64 word"
type_synonym byte = "8 word"
type_synonym FileMode = "32 word"

text \<open>
  Errors are values. \<open>ErrorString\<close> is what \<open>errors.New\<close> and \<open>fmt.Errorf\<close> build,
  \<open>PathError\<close> is \<open>os.PathError{Op, Path, Err}\<close>, \<open>ErrNotExist\<close> is \<open>os.ErrNotExist\<close>,
  \<open>EOF\<close> is \<open>io.EOF\<close>, \<open>RespError\<close> is this package's \<open>respError\<close> (the status code of
  the response it keeps and the bytes copied from its body), \<open>External\<close> is any error made
  by a package outside this one (transport, XML decoding, s3util), and \<open>RuntimePanic\<close>
  stands for a nil dereference, which is not an error value in Go but ends the call.
\<close>

datatype go_error =
    ErrorString string
  | PathError string string go_error
  | ErrNotExist
  | EOF
  | RespError int "byte list"
  | External string
  | RuntimePanic string

text \<open>\<open>time.Time\<close> as seconds since January 1, year 1 UTC; \<open>time.Time{}\<close> is instant 0.\<close>

datatype go_time = Time int

definition zero_Time :: go_time where
  "zero_Time = Time 0"

definition ModeDir :: FileMode where
  "ModeDir = push_bit 31 1"

record fileInfo =
  fi_name :: string
  fi_size :: int64
  fi_mode :: FileMode
  fi_modTime :: go_time
  fi_sys :: "string option"

definition IsDir :: "fileInfo \<Rightarrow> bool" where
  "IsDir f = (fi_mode f AND ModeDir \<noteq> 0)"

section \<open>Formatting and paths (Go standard library)\<close>

text \<open>The verb \<open>%d\<close> of \<open>fmt\<close> on an \<open>int64\<close>: the signed value in decimal.\<close>

definition digit_char :: "nat \<Rightarrow> char" where
  "digit_char n = ''0123456789'' ! n"

fun show_nat :: "nat \<Rightarrow> string" where
  "show_nat n = (if n < 10 then [digit_char n] else show_nat (n div 10) @ [digit_char (n mod 10)])"

declare show_nat.simps [simp del]

definition show_int :: "int \<Rightarrow> string" where
  "show_int k = (if k < 0 then CHR ''-'' # show_nat (nat (- k)) else show_nat (nat k))"

definition fmt_d :: "int64 \<Rightarrow> string" where
  "fmt_d x = show_int (sint x)"

text \<open>
  \<open>filepath.Clean\<close> on a Unix path, as the standard library documents it: empty and
  \<open>.\<close> elements go, an inner \<open>..\<close> removes the element before it, a \<open>..\<close> at the start
  of a rooted path goes, one that starts a relative path stays; the empty result is
  \<open>.\<close>. \<open>path.Clean\<close> is the same function.
\<close>

fun split_slash :: "string \<Rightarrow> string list" where
  "split_slash [] = [[]]"
| "split_slash (c # cs) =
     (if c = CHR ''/'' then [] # split_slash cs
      else (case split_slash cs of [] \<Rightarrow> [[c]] | x # xs \<Rightarrow> (c # x) # xs))"

fun join_slash :: "string list \<Rightarrow> string" where
  "join_slash [] = []"
| "join_slash [x] = x"
| "join_slash (x # y # ys) = x @ CHR ''/'' # join_slash (y # ys)"

definition clean_step :: "bool \<Rightarrow> string list \<Rightarrow> string \<Rightarrow> string list" where
  "clean_step rooted out seg =
     (if seg = [] \<or> seg = ''.'' then out
      else if seg = ''..'' then
        (if out \<noteq> [] \<and> last out \<noteq> ''..'' then butlast out
         else if rooted then out
         else out @ [''..''])
      else out @ [seg])"

definition Clean :: "string \<Rightarrow> string" where
  "Clean path =
     (if path = [] then ''.''
      else
        let rooted = (hd path = CHR ''/'');
            out = foldl (clean_step rooted) [] (split_slash path)
        in if rooted then CHR ''/'' # join_slash out
           else if out = [] then ''.''
           else join_slash out)"

text \<open>\<open>strings.TrimPrefix\<close>.\<close>

definition TrimPrefix :: "string \<Rightarrow> string \<Rightarrow> string" where
  "TrimPrefix str pre = (if take (length pre) str = pre then drop (length pre) str else str)"

text \<open>\<open>path.Join\<close> of two elements and \<open>path.Base\<close>.\<close>

definition Join :: "string \<Rightarrow> string \<Rightarrow> string" where
  "Join a b =
     (if a = [] then (if b = [] then [] else Clean b)
      else Clean (a @ CHR ''/'' # b))"

definition Base :: "string \<Rightarrow> string" where
  "Base path =
     (if path = [] then ''.''
      else
        let stripped = rev (dropWhile (\<lambda>c. c = CHR ''/'') (rev path));
            elem = rev (takeWhile (\<lambda>c. c \<noteq> CHR ''/'') (rev stripped))
        in if elem = [] then ''/'' else elem)"

section \<open>The object store seen from the package\<close>

text \<open>
  An HTTP request as far as the package shapes it: method, URL and the value of the
  \<open>Range\<close> header (empty when the header is absent). Signing and the \<open>Date\<close> header
  belong to the transport and are not modelled.
\<close>

record http_request =
  Method :: string
  URL :: string
  Range :: string

text \<open>
  A response: the fields the package reads. \<open>Body\<close> holds the bytes the body stream
  delivers, \<open>BodyReadErr\<close> the error the stream ends with instead of EOF (if any),
  \<open>BodyCloseErr\<close> what closing it returns. \<open>Header\<close> is \<open>resp.Header.Get\<close>.
\<close>

record http_response =
  StatusCode :: int
  ContentLength :: int64
  Header :: "string \<Rightarrow> string"
  Body :: "byte list"
  BodyReadErr :: "go_error option"
  BodyCloseErr :: "go_error option"

text \<open>
  An \<open>io.ReadCloser\<close> handed out by the store client: the bytes not read yet, whether
  it has been closed, and what \<open>Close\<close> returns.
\<close>

record ReadCloser =
  unread :: "byte list"
  closed :: bool
  closeErr :: "go_error option"

datatype WriteCloser = Uploader string

text \<open>
  Every call that leaves the process is appended to a trace. \<open>HTTP\<close> is a round trip
  of the configured transport; the other three are the entry points of \<open>s3util\<close> that
  the package calls without a transport of its own.
\<close>

datatype call =
    HTTP http_request
  | S3Readdir string
  | S3Create string
  | S3Delete string

text \<open>
  The world outside the package. Each network answer may depend on the calls made so
  far, so any sequence of answers is a backend. The pure library functions that are not
  modelled further (\<open>http.NewRequest\<close>, the XML decoder of a listing, \<open>time.Parse\<close>
  with \<open>http.TimeFormat\<close>, \<open>s3util.NewFile\<close>) are part of it too.
\<close>

record backend =
  RoundTrip :: "call list \<Rightarrow> http_request \<Rightarrow> go_error + http_response"
  http_NewRequest :: "string \<Rightarrow> string \<Rightarrow> go_error option"
  xml_Decode :: "http_response \<Rightarrow> go_error + string list"
  time_Parse :: "string \<Rightarrow> go_error + go_time"
  s3util_NewFile :: "string \<Rightarrow> go_error option"
  File_Readdir :: "call list \<Rightarrow> string \<Rightarrow> go_error + fileInfo list"
  s3util_Create :: "call list \<Rightarrow> string \<Rightarrow> go_error + WriteCloser"
  s3util_Delete :: "call list \<Rightarrow> string \<Rightarrow> ReadCloser option \<times> go_error option"

text \<open>
  \<open>S3FS\<close>: the bucket URL. \<open>bucket_Path\<close> is \<open>fs.bucket.Path\<close>;
  \<open>bucket_ResolveReference\<close> is \<open>fs.bucket.ResolveReference(ref).String()\<close> for the two
  references the package builds, one with a path and one with a query.
\<close>

datatype url_ref = RefPath string | RefRawQuery "(string \<times> string) list"

record S3FS =
  bucket_Path :: string
  bucket_ResolveReference :: "url_ref \<Rightarrow> string"

definition url :: "S3FS \<Rightarrow> string \<Rightarrow> string" where
  "url fs path = bucket_ResolveReference fs (RefPath (Join (bucket_Path fs) path))"

text \<open>\<open>client.Do\<close> on the configured client: one round trip, recorded in the trace.\<close>

definition client_Do ::
  "backend \<Rightarrow> http_request \<Rightarrow> call list \<Rightarrow> (go_error + http_response) \<times> call list" where
  "client_Do B req tr = (RoundTrip B tr req, tr @ [HTTP req])"

text \<open>
  \<open>rangeTransport.RoundTrip\<close>: the request is cloned, its \<open>Range\<close> header set, sent on
  the wrapped transport, and a 206 answer is turned into 200.
\<close>

definition rangeTransport_RoundTrip ::
  "backend \<Rightarrow> string \<Rightarrow> http_request \<Rightarrow> call list \<Rightarrow> (go_error + http_response) \<times> call list" where
  "rangeTransport_RoundTrip B rangeVal req tr =
     (let req2 = req\<lparr>Range := rangeVal\<rparr> in
      case client_Do B req2 tr of
        (Inl err, tr') \<Rightarrow> (Inl err, tr')
      | (Inr resp, tr') \<Rightarrow>
          (Inr (if StatusCode resp = 206 then resp\<lparr>StatusCode := 200\<rparr> else resp), tr'))"

text \<open>
  \<open>newRespError\<close>: keeps the response, copies its body into the error and closes it.
\<close>

definition newRespError :: "http_response \<Rightarrow> go_error" where
  "newRespError r = RespError (StatusCode r) (Body r)"

text \<open>
  \<open>resp.Body.Close()\<close> on a body that has not been read: nothing can be read from it
  afterwards.
\<close>

definition Body_Close :: "http_response \<Rightarrow> http_response" where
  "Body_Close resp =
     resp\<lparr>Body := [], BodyReadErr := Some (External ''http: read on closed response body'')\<rparr>"

text \<open>
  \<open>s3util.Open\<close> (package \<open>github.com/sqs/s3/s3util\<close>): a GET of the URL on the client
  of the configuration; a transport error is returned, any status but 200 is an error of
  that package, and otherwise the response body is the reader.
\<close>

definition s3util_Open ::
  "(http_request \<Rightarrow> call list \<Rightarrow> (go_error + http_response) \<times> call list) \<Rightarrow> string \<Rightarrow>
   call list \<Rightarrow> (go_error + http_response) \<times> call list" where
  "s3util_Open transport u tr =
     (case transport \<lparr>Method = ''GET'', URL = u, Range = ''''\<rparr> tr of
        (Inl err, tr') \<Rightarrow> (Inl err, tr')
      | (Inr resp, tr') \<Rightarrow>
          if StatusCode resp \<noteq> 200 then (Inl (External ''s3util: unwanted http status''), tr')
          else (Inr resp, tr'))"

text \<open>\<open>ioutil.ReadAll\<close> on a response body.\<close>

definition ioutil_ReadAll :: "http_response \<Rightarrow> go_error + byte list" where
  "ioutil_ReadAll resp = (case BodyReadErr resp of Some err \<Rightarrow> Inl err | None \<Rightarrow> Inr (Body resp))"

section \<open>bytes.Reader behind nopCloser\<close>

text \<open>
  The backing stream of a reader is always \<open>nopCloser{bytes.NewReader(b)}\<close>: the bytes
  and the read index. \<open>Read\<close> copies into the buffer \<open>p\<close> and returns the count, the
  error and the buffer; \<open>Seek\<close> is the standard library's.
\<close>

record bytes_Reader =
  rd_s :: "byte list"
  rd_i :: int64

definition bytes_NewReader :: "byte list \<Rightarrow> bytes_Reader" where
  "bytes_NewReader b = \<lparr>rd_s = b, rd_i = 0\<rparr>"

definition bytes_Reader_Read ::
  "bytes_Reader \<Rightarrow> byte list \<Rightarrow> (nat \<times> go_error option \<times> byte list) \<times> bytes_Reader" where
  "bytes_Reader_Read r p =
     (if of_nat (length (rd_s r)) \<le>s rd_i r then ((0, Some EOF, p), r)
      else
        let src = drop (nat (sint (rd_i r))) (rd_s r);
            n = min (length p) (length src)
        in ((n, None, take n src @ drop n p), r\<lparr>rd_i := rd_i r + of_nat n\<rparr>))"

definition bytes_Reader_Seek ::
  "bytes_Reader \<Rightarrow> int64 \<Rightarrow> int \<Rightarrow> (int64 \<times> go_error option) \<times> bytes_Reader" where
  "bytes_Reader_Seek r offset whence =
     (if whence \<noteq> 0 \<and> whence \<noteq> 1 \<and> whence \<noteq> 2
      then ((0, Some (ErrorString ''bytes.Reader.Seek: invalid whence'')), r)
      else
        let abs = (if whence = 0 then offset
                   else if whence = 1 then rd_i r + offset
                   else of_nat (length (rd_s r)) + offset)
        in if abs <s 0 then ((0, Some (ErrorString ''bytes.Reader.Seek: negative position'')), r)
           else ((abs, None), r\<lparr>rd_i := abs\<rparr>))"

definition nopCloser_Close :: "bytes_Reader \<Rightarrow> go_error option" where
  "nopCloser_Close r = None"

section \<open>S3FS.open and the range-cached reader\<close>

text \<open>
  \<open>S3FS.open\<close> (named \<open>fs_open\<close> here). With a range header the client of
  \<open>s3util.Open\<close> gets a \<open>rangeTransport\<close>; an error of \<open>s3util.Open\<close> is wrapped in
  an \<open>os.PathError\<close>, an error of \<open>ioutil.ReadAll\<close> is returned as it is, and the
  bytes read become a \<open>bytes.Reader\<close>. Every operation takes the trace of calls made
  so far and returns it with its own calls appended.
\<close>

definition fs_open ::
  "backend \<Rightarrow> S3FS \<Rightarrow> string \<Rightarrow> string \<Rightarrow> call list \<Rightarrow> (go_error + bytes_Reader) \<times> call list" where
  "fs_open B fs name rangeHeader tr =
     (let transport = (if rangeHeader \<noteq> [] then rangeTransport_RoundTrip B rangeHeader
                       else client_Do B)
      in case s3util_Open transport (url fs name) tr of
           (Inl err, tr') \<Rightarrow> (Inl (PathError ''open'' (url fs name) err), tr')
         | (Inr rdr, tr') \<Rightarrow>
             (case ioutil_ReadAll rdr of
                Inl err \<Rightarrow> (Inl err, tr')
              | Inr b \<Rightarrow> (Inr (bytes_NewReader b), tr')))"

definition Open ::
  "backend \<Rightarrow> S3FS \<Rightarrow> string \<Rightarrow> call list \<Rightarrow> (go_error + bytes_Reader) \<times> call list" where
  "Open B fs name tr = fs_open B fs name [] tr"

text \<open>
  \<open>explicitFetchFile\<close>. The fields \<open>name\<close> and \<open>fs\<close> are \<open>ef_name\<close> and \<open>ef_fs\<close>;
  \<open>rc\<close> is \<open>None\<close> for the nil interface.
\<close>

record explicitFetchFile =
  ef_name :: string
  ef_fs :: S3FS
  startByte :: int64
  endByte :: int64
  rc :: "bytes_Reader option"
  autofetch :: bool

definition OpenFetcher ::
  "S3FS \<Rightarrow> string \<Rightarrow> call list \<Rightarrow> (explicitFetchFile \<times> go_error option) \<times> call list" where
  "OpenFetcher fs0 name0 tr =
     ((\<lparr>ef_name = name0, ef_fs = fs0, startByte = 0, endByte = 0, rc = None, autofetch = True\<rparr>, None), tr)"

definition isFetched :: "explicitFetchFile \<Rightarrow> int64 \<Rightarrow> int64 \<Rightarrow> bool" where
  "isFetched f start end' =
     (rc f \<noteq> None \<and> start \<le>s end' \<and> startByte f \<le>s start \<and> end' \<le>s endByte f)"

definition Close :: "explicitFetchFile \<Rightarrow> go_error option \<times> explicitFetchFile" where
  "Close f =
     (case rc f of
        Some r \<Rightarrow> (nopCloser_Close r, f\<lparr>rc := None, startByte := 0, endByte := 0\<rparr>)
      | None \<Rightarrow> (None, f))"

text \<open>
  \<open>Fetch\<close>: nothing to do when the span is fetched; otherwise \<open>Close\<close> first, then the
  ranged open with the header \<open>bytes=start-end\<close>, whose reader (nil on error) is stored
  in \<open>rc\<close>; the window is set on success only.
\<close>

definition Fetch ::
  "backend \<Rightarrow> explicitFetchFile \<Rightarrow> int64 \<Rightarrow> int64 \<Rightarrow> call list \<Rightarrow>
   (go_error option \<times> explicitFetchFile) \<times> call list" where
  "Fetch B f start end' tr =
     (if isFetched f start end' then ((None, f), tr)
      else
        case Close f of
          (Some err, f1) \<Rightarrow> ((Some err, f1), tr)
        | (None, f1) \<Rightarrow>
            let rng = ''bytes='' @ fmt_d start @ ''-'' @ fmt_d end' in
            (case fs_open B (ef_fs f1) (ef_name f1) rng tr of
               (Inl err, tr') \<Rightarrow> ((Some err, f1\<lparr>rc := None\<rparr>), tr')
             | (Inr r, tr') \<Rightarrow>
                 ((None, f1\<lparr>rc := Some r, startByte := start, endByte := end'\<rparr>), tr')))"

definition errRelOfs :: go_error where
  "errRelOfs = ErrorString ''s3vfs: seek to offset relative to end of file is not supported''"

text \<open>
  \<open>Seek\<close>: refused without a backing stream and for whence 2; an absolute offset is
  made relative to the window, and the position the stream returns is made absolute.
\<close>

definition Seek ::
  "explicitFetchFile \<Rightarrow> int64 \<Rightarrow> int \<Rightarrow> (int64 \<times> go_error option) \<times> explicitFetchFile" where
  "Seek f offset whence =
     (case rc f of
        None \<Rightarrow> ((0, Some (ErrorString ''s3vfs: must call Fetch before Seek'')), f)
      | Some r \<Rightarrow>
          if whence = 2 then ((0, Some errRelOfs), f)
          else
            let offset' = (if whence = 0 then offset - startByte f else offset) in
            case bytes_Reader_Seek r offset' whence of
              ((n, err), r') \<Rightarrow> ((n + startByte f, err), f\<lparr>rc := Some r'\<rparr>))"

text \<open>
  \<open>f.rc.Read(p)\<close>, the last line of \<open>Read\<close>. With no backing stream the call would
  dereference nil.
\<close>

definition rc_Read ::
  "explicitFetchFile \<Rightarrow> byte list \<Rightarrow> (nat \<times> go_error option \<times> byte list) \<times> explicitFetchFile" where
  "rc_Read f p =
     (case rc f of
        None \<Rightarrow> ((0, Some (RuntimePanic ''nil pointer dereference''), p), f)
      | Some r \<Rightarrow>
          (case bytes_Reader_Read r p of (res, r') \<Rightarrow> (res, f\<lparr>rc := Some r'\<rparr>)))"

definition notFetchedError :: "explicitFetchFile \<Rightarrow> int64 \<Rightarrow> int64 \<Rightarrow> int64 \<Rightarrow> go_error" where
  "notFetchedError f start end' ofs =
     ErrorString (''s3vfs: range '' @ fmt_d start @ ''-'' @ fmt_d end' @ '' not fetched ('' @
       fmt_d (startByte f) @ ''-'' @ fmt_d (endByte f) @ '' fetched; offset '' @ fmt_d ofs @ '')'')"

text \<open>
  \<open>Read\<close>: the current offset comes from \<open>Seek(0, 1)\<close>, whose error ends the call; a
  span that is not fetched is an error without autofetch and a \<open>Fetch\<close> of five times
  the span with it.
\<close>

definition Read ::
  "backend \<Rightarrow> explicitFetchFile \<Rightarrow> byte list \<Rightarrow> call list \<Rightarrow>
   ((nat \<times> go_error option \<times> byte list) \<times> explicitFetchFile) \<times> call list" where
  "Read B f p tr =
     (case Seek f 0 1 of
        ((ofs, Some err), f0) \<Rightarrow> (((0, Some err, p), f0), tr)
      | ((ofs, None), f0) \<Rightarrow>
          let start = ofs; end' = ofs + of_nat (length p) in
          if \<not> isFetched f0 start end' then
            if \<not> autofetch f0 then (((0, Some (notFetchedError f0 start end' ofs), p), f0), tr)
            else
              let fetchEnd = end' + (end' - start) * 4 in
              (case Fetch B f0 start fetchEnd tr of
                 ((Some err, f1), tr1) \<Rightarrow> (((0, Some err, p), f1), tr1)
               | ((None, f1), tr1) \<Rightarrow> (rc_Read f1 p, tr1))
          else (rc_Read f0 p, tr))"

section \<open>Directory listing, stat, create, remove\<close>

text \<open>
  \<open>ReadDir\<close>: an error of \<open>s3util.NewFile\<close> is wrapped, an error of \<open>Readdir\<close> is
  not, and every entry is rebuilt with the base of its name.
\<close>

definition ReadDir ::
  "backend \<Rightarrow> S3FS \<Rightarrow> string \<Rightarrow> call list \<Rightarrow> (go_error + fileInfo list) \<times> call list" where
  "ReadDir B fs path tr =
     (case s3util_NewFile B (url fs path) of
        Some err \<Rightarrow> (Inl (PathError ''readdir'' (url fs path) err), tr)
      | None \<Rightarrow>
          (case File_Readdir B tr (url fs path) of
             Inl err \<Rightarrow> (Inl err, tr @ [S3Readdir (url fs path)])
           | Inr fis \<Rightarrow>
               (Inr (map (\<lambda>fi. \<lparr>fi_name = Base (fi_name fi), fi_size = fi_size fi,
                                 fi_mode = fi_mode fi, fi_modTime = fi_modTime fi,
                                 fi_sys = fi_sys fi\<rparr>) fis),
                tr @ [S3Readdir (url fs path)])))"

text \<open>
  The second half of \<open>lstat\<close> (``Otherwise, see if a key exists here''): the HEAD probe
  of the key. \<open>name\<close> is the normalised name.
\<close>

definition lstat_probe ::
  "backend \<Rightarrow> S3FS \<Rightarrow> string \<Rightarrow> call list \<Rightarrow> (go_error + fileInfo) \<times> call list" where
  "lstat_probe B fs name tr =
     (case http_NewRequest B ''HEAD'' (url fs name) of
        Some err \<Rightarrow> (Inl err, tr)
      | None \<Rightarrow>
          (case client_Do B \<lparr>Method = ''HEAD'', URL = url fs name, Range = ''''\<rparr> tr of
             (Inl err, tr') \<Rightarrow> (Inl err, tr')
           | (Inr resp, tr') \<Rightarrow>
               if StatusCode resp = 404 then (Inl ErrNotExist, tr')
               else if StatusCode resp \<noteq> 200 then (Inl (newRespError resp), tr')
               else
                 let t = (case time_Parse B (Header resp ''last-modified'') of
                            Inl err \<Rightarrow> zero_Time | Inr t' \<Rightarrow> t')
                 in (Inr \<lparr>fi_name = name, fi_size = ContentLength resp, fi_mode = 0,
                          fi_modTime = t, fi_sys = None\<rparr>, tr')))"

text \<open>
  \<open>lstat\<close>: the name is cleaned and its leading slash dropped; \<open>.\<close> is the root.
  Otherwise one key is listed under the prefix \<open>name/\<close>. A status other than 200
  closes the body and then builds the error from it; a listing of exactly one key is a
  directory; anything else goes on to the probe.
\<close>

definition lstat ::
  "backend \<Rightarrow> S3FS \<Rightarrow> string \<Rightarrow> call list \<Rightarrow> (go_error + fileInfo) \<times> call list" where
  "lstat B fs name0 tr =
     (let name = TrimPrefix (Clean name0) ''/'' in
      if name = ''.'' then
        (Inr \<lparr>fi_name = ''.'', fi_size = 0, fi_mode = ModeDir, fi_modTime = zero_Time,
              fi_sys = None\<rparr>, tr)
      else
        let u = bucket_ResolveReference fs
                  (RefRawQuery [(''prefix'', name @ ''/''), (''max-keys'', ''1'')])
        in case http_NewRequest B ''GET'' u of
             Some err \<Rightarrow> (Inl err, tr)
           | None \<Rightarrow>
               (case client_Do B \<lparr>Method = ''GET'', URL = u, Range = ''''\<rparr> tr of
                  (Inl err, tr1) \<Rightarrow> (Inl err, tr1)
                | (Inr resp, tr1) \<Rightarrow>
                    if StatusCode resp \<noteq> 200 then
                      (Inl (newRespError (Body_Close resp)), tr1)
                    else
                      (case xml_Decode B resp of
                         Inl err \<Rightarrow> (Inl err, tr1)
                       | Inr contents \<Rightarrow>
                           (case BodyCloseErr resp of
                              Some err \<Rightarrow> (Inl err, tr1)
                            | None \<Rightarrow>
                                if length contents = 1 then
                                  (Inr \<lparr>fi_name = name, fi_size = 0, fi_mode = ModeDir,
                                        fi_modTime = zero_Time, fi_sys = None\<rparr>, tr1)
                                else lstat_probe B fs name tr1))))"

text \<open>
  \<open>Lstat\<close> wraps the error of \<open>lstat\<close> with the URL of the name as given; \<open>Stat\<close> is
  \<open>Lstat\<close>. \<open>Create\<close> wraps the error of \<open>s3util.Create\<close>. \<open>Mkdir\<close> and
  \<open>MkdirAll\<close> do nothing.
\<close>

definition Lstat ::
  "backend \<Rightarrow> S3FS \<Rightarrow> string \<Rightarrow> call list \<Rightarrow> (go_error + fileInfo) \<times> call list" where
  "Lstat B fs name tr =
     (case lstat B fs name tr of
        (Inl err, tr') \<Rightarrow> (Inl (PathError ''lstat'' (url fs name) err), tr')
      | (Inr fi, tr') \<Rightarrow> (Inr fi, tr'))"

definition Stat ::
  "backend \<Rightarrow> S3FS \<Rightarrow> string \<Rightarrow> call list \<Rightarrow> (go_error + fileInfo) \<times> call list" where
  "Stat B fs name tr = Lstat B fs name tr"

definition Create ::
  "backend \<Rightarrow> S3FS \<Rightarrow> string \<Rightarrow> call list \<Rightarrow> (go_error + WriteCloser) \<times> call list" where
  "Create B fs path tr =
     (case s3util_Create B tr (url fs path) of
        Inl err \<Rightarrow> (Inl (PathError ''create'' (url fs path) err), tr @ [S3Create (url fs path)])
      | Inr wc \<Rightarrow> (Inr wc, tr @ [S3Create (url fs path)]))"

definition Mkdir :: "S3FS \<Rightarrow> string \<Rightarrow> call list \<Rightarrow> go_error option \<times> call list" where
  "Mkdir fs name tr = (None, tr)"

definition MkdirAll :: "S3FS \<Rightarrow> string \<Rightarrow> call list \<Rightarrow> go_error option \<times> call list" where
  "MkdirAll fs name tr = (None, tr)"

definition ReadCloser_Close :: "ReadCloser \<Rightarrow> go_error option \<times> ReadCloser" where
  "ReadCloser_Close r = (closeErr r, r\<lparr>closed := True\<rparr>)"

text \<open>
  \<open>Remove\<close> returns the error; the second component is the reader that
  \<open>s3util.Delete\<close> handed out, as the deferred function leaves it.
\<close>

definition Remove ::
  "backend \<Rightarrow> S3FS \<Rightarrow> string \<Rightarrow> call list \<Rightarrow> (go_error option \<times> ReadCloser option) \<times> call list" where
  "Remove B fs name tr =
     (case s3util_Delete B tr (url fs name) of
        (rdr, err) \<Rightarrow>
          (case rdr of
             None \<Rightarrow> ((err, None), tr @ [S3Delete (url fs name)])
           | Some r \<Rightarrow>
               (case ReadCloser_Close r of
                  (err2, r') \<Rightarrow>
                    ((if err = None then err2 else err, Some r'), tr @ [S3Delete (url fs name)]))))"

section \<open>Reader states\<close>

text \<open>
  The states a reader can be in: \<open>OpenFetcher\<close> makes it, and only its own methods
  change it, whatever the backend answers.
\<close>

inductive reachable :: "explicitFetchFile \<Rightarrow> bool" where
  reachable_OpenFetcher: "reachable (fst (fst (OpenFetcher fs0 name0 tr)))"
| reachable_Read: "reachable f \<Longrightarrow> reachable (snd (fst (Read B f p tr)))"
| reachable_Fetch: "reachable f \<Longrightarrow> reachable (snd (fst (Fetch B f start end' tr)))"
| reachable_Seek: "reachable f \<Longrightarrow> reachable (snd (Seek f offset whence))"
| reachable_Close: "reachable f \<Longrightarrow> reachable (snd (Close f))"

text \<open>
  What holds of every such state: autofetch is on, and without a backing stream the
  window is \<open>[0, 0)\<close>.
\<close>

definition window_inv :: "explicitFetchFile \<Rightarrow> bool" where
  "window_inv f = (autofetch f \<and> (rc f = None \<longrightarrow> startByte f = 0 \<and> endByte f = 0))"

text \<open>
  \<open>unfetched_run f g\<close>: \<open>g\<close> is reached from \<open>f\<close> by any calls of the reader's
  methods among which no call of \<open>Fetch\<close> returns success.
\<close>

inductive unfetched_run :: "explicitFetchFile \<Rightarrow> explicitFetchFile \<Rightarrow> bool" where
  run_here: "unfetched_run f f"
| run_Read: "unfetched_run f g \<Longrightarrow> unfetched_run f (snd (fst (Read B g p tr)))"
| run_Seek: "unfetched_run f g \<Longrightarrow> unfetched_run f (snd (Seek g offset whence))"
| run_Close: "unfetched_run f g \<Longrightarrow> unfetched_run f (snd (Close g))"
| run_failed_Fetch:
    "unfetched_run f g \<Longrightarrow> fst (fst (Fetch B g start end' tr)) \<noteq> None \<Longrightarrow>
     unfetched_run f (snd (fst (Fetch B g start end' tr)))"

section \<open>A small store\<close>

text \<open>
  A bucket at \<open>https://s3.test/bucket\<close> that holds two objects: \<open>a/b.txt\<close> with the
  five bytes of \<open>hello\<close>, and \<open>a\<close> with one byte. It serves \<open>a/b.txt\<close> whole and
  the ranges \<open>bytes=0-2\<close> and \<open>bytes=0-15\<close> of it (status 206), answers any other
  range of it with 416, lists one key under the prefix \<open>a/\<close> and none under any other,
  answers HEAD on the two objects and on the bucket itself with 200, cannot be reached
  for the key \<open>down\<close>, answers 403 with a two-byte body for the key \<open>secret\<close> and
  404 for anything else. The listing body is one byte per key, which
  \<open>example_xml_Decode\<close> reads back. Deleting \<open>a/b.txt\<close> hands out an empty body,
  deleting \<open>verbose\<close> a body of two bytes, and deleting anything else fails.
\<close>

definition example_fs :: S3FS where
  "example_fs =
     \<lparr>bucket_Path = ''/bucket'',
      bucket_ResolveReference =
        (\<lambda>ref. case ref of
           RefPath p \<Rightarrow> ''https://s3.test'' @ p
         | RefRawQuery q \<Rightarrow>
             ''https://s3.test/bucket?'' @ concat (map (\<lambda>(k, v). k @ ''='' @ v @ ''&'') q))\<rparr>"

definition hello :: "byte list" where
  "hello = [104, 101, 108, 108, 111]"

definition example_response :: "int \<Rightarrow> byte list \<Rightarrow> http_response" where
  "example_response st b =
     \<lparr>StatusCode = st, ContentLength = of_nat (length b), Header = (\<lambda>k. []),
      Body = b, BodyReadErr = None, BodyCloseErr = None\<rparr>"

definition example_head :: "int64 \<Rightarrow> http_response" where
  "example_head n =
     \<lparr>StatusCode = 200, ContentLength = n,
      Header = (\<lambda>k. if k = ''last-modified'' then ''Sat, 31 Oct 2026 12:00:00 GMT'' else []),
      Body = [], BodyReadErr = None, BodyCloseErr = None\<rparr>"

definition example_RoundTrip :: "call list \<Rightarrow> http_request \<Rightarrow> go_error + http_response" where
  "example_RoundTrip tr req =
     (if URL req = ''https://s3.test/bucket/a/b.txt'' then
        (if Method req = ''HEAD'' then Inr (example_head 5)
         else if Range req = [] then Inr (example_response 200 hello)
         else if Range req = ''bytes=0-2'' then Inr (example_response 206 (take 3 hello))
         else if Range req = ''bytes=0-15'' then Inr (example_response 206 hello)
         else Inr (example_response 416 []))
      else if URL req = ''https://s3.test/bucket/a'' then
        (if Method req = ''HEAD'' then Inr (example_head 1) else Inr (example_response 200 [33]))
      else if URL req = ''https://s3.test/bucket?prefix=a/&max-keys=1&'' then
        Inr (example_response 200 [1])
      else if take 23 (URL req) = ''https://s3.test/bucket?'' then Inr (example_response 200 [])
      else if URL req = ''https://s3.test/bucket'' \<and> Method req = ''HEAD'' then
        Inr (example_response 200 [])
      else if URL req = ''https://s3.test/bucket/down'' then Inl (External ''dial tcp: timeout'')
      else if URL req = ''https://s3.test/bucket/secret'' then
        Inr (example_response 403 [110, 111])
      else Inr (example_response 404 []))"

definition example_xml_Decode :: "http_response \<Rightarrow> go_error + string list" where
  "example_xml_Decode resp =
     (if Body resp = [] then Inr []
      else if Body resp = [1] then Inr [''a/b.txt'']
      else Inl (External ''xml: syntax error''))"

definition example_time_Parse :: "string \<Rightarrow> go_error + go_time" where
  "example_time_Parse str =
     (if str = ''Sat, 31 Oct 2026 12:00:00 GMT'' then Inr (Time 63929044800)
      else Inl (External ''parsing time''))"

definition example_Delete :: "call list \<Rightarrow> string \<Rightarrow> ReadCloser option \<times> go_error option" where
  "example_Delete tr u =
     (if u = ''https://s3.test/bucket/a/b.txt'' then
        (Some \<lparr>unread = [], closed = False, closeErr = None\<rparr>, None)
      else if u = ''https://s3.test/bucket/verbose'' then
        (Some \<lparr>unread = [111, 107], closed = False, closeErr = None\<rparr>, None)
      else (None, Some (External ''s3util: unwanted http status 404'')))"

definition example_backend :: backend where
  "example_backend =
     \<lparr>RoundTrip = example_RoundTrip,
      http_NewRequest = (\<lambda>m u. None),
      xml_Decode = example_xml_Decode,
      time_Parse = example_time_Parse,
      s3util_NewFile =
        (\<lambda>u. if u = ''https://s3.test/bucket/%zz'' then Some (External ''invalid URL escape'')
             else None),
      File_Readdir =
        (\<lambda>tr u. if u = ''https://s3.test/bucket/a''
                 then Inr [\<lparr>fi_name = ''a/b.txt'', fi_size = 5, fi_mode = 0,
                            fi_modTime = Time 63929044800, fi_sys = None\<rparr>]
                 else Inr []),
      s3util_Create =
        (\<lambda>tr u. if u = ''https://s3.test/bucket/down'' then Inl (External ''dial tcp: timeout'')
                 else Inr (Uploader u)),
      s3util_Delete = example_Delete\<rparr>"

definition fresh_reader :: explicitFetchFile where
  "fresh_reader = fst (fst (OpenFetcher example_fs ''a/b.txt'' []))"

text \<open>The reader after \<open>Fetch(0, 2)\<close> on the small store, and the trace of that call.\<close>

definition fetched_reader :: explicitFetchFile where
  "fetched_reader = snd (fst (Fetch example_backend fresh_reader 0 2 []))"

definition fetched_trace :: "call list" where
  "fetched_trace = snd (Fetch example_backend fresh_reader 0 2 [])"

section \<open>Evaluating the model\<close>

lemma fmt_d_0: "fmt_d 0 = ''0''"
  by (simp add: fmt_d_def show_int_def show_nat.simps [of 0] digit_char_def)

lemma fmt_d_2: "fmt_d 2 = ''2''"
  by (simp add: fmt_d_def show_int_def show_nat.simps [of 2] digit_char_def)

lemma fmt_d_7: "fmt_d 7 = ''7''"
  by (simp add: fmt_d_def show_int_def show_nat.simps [of 7] digit_char_def)

lemma fmt_d_9: "fmt_d 9 = ''9''"
  by (simp add: fmt_d_def show_int_def show_nat.simps [of 9] digit_char_def)

lemma fmt_d_15: "fmt_d 15 = ''15''"
  by (simp add: fmt_d_def show_int_def show_nat.simps [of 15] show_nat.simps [of "Suc 0"]
      digit_char_def)

lemma Clean_slash: "Clean ''/'' = ''/''"
  by (simp add: Clean_def clean_step_def)

lemma url_example_object: "url example_fs ''a/b.txt'' = ''https://s3.test/bucket/a/b.txt''"
  by (simp add: url_def example_fs_def Join_def Clean_def clean_step_def)

section \<open>The reader: Seek, Close, Fetch\<close>

lemma Seek_no_stream:
  "rc f = None \<Longrightarrow>
   Seek f offset whence = ((0, Some (ErrorString ''s3vfs: must call Fetch before Seek'')), f)"
  by (simp add: Seek_def)

lemma Seek_end_relative:
  "rc f = Some r \<Longrightarrow> Seek f offset 2 = ((0, Some errRelOfs), f)"
  by (simp add: Seek_def)

lemma Seek_current:
  "rc f = Some r \<Longrightarrow> \<not> rd_i r <s 0 \<Longrightarrow> Seek f 0 1 = ((rd_i r + startByte f, None), f)"
  by (simp add: Seek_def bytes_Reader_Seek_def)

lemma Read_no_stream:
  "rc f = None \<Longrightarrow>
   Read B f p tr = (((0, Some (ErrorString ''s3vfs: must call Fetch before Seek''), p), f), tr)"
  by (simp add: Read_def Seek_def)

lemma Close_no_stream: "rc f = None \<Longrightarrow> Close f = (None, f)"
  by (simp add: Close_def)

lemma Close_stream:
  "rc f = Some r \<Longrightarrow> Close f = (None, f\<lparr>rc := None, startByte := 0, endByte := 0\<rparr>)"
  by (simp add: Close_def nopCloser_Close_def)

text \<open>
  A ranged open makes exactly one round trip, whatever the answer: a GET of the object's
  URL with the range header it was given.
\<close>

lemma fs_open_trace:
  "rng \<noteq> [] \<Longrightarrow>
   snd (fs_open B fs0 nm rng tr) = tr @ [HTTP \<lparr>Method = ''GET'', URL = url fs0 nm, Range = rng\<rparr>]"
  by (auto simp: fs_open_def s3util_Open_def rangeTransport_RoundTrip_def client_Do_def Let_def
      split: sum.splits prod.splits)

text \<open>\<open>Fetch\<close> with \<open>Close\<close> already run: \<open>Close\<close> never fails on a \<open>nopCloser\<close>.\<close>

lemma Fetch_unfold:
  "Fetch B f start end' tr =
     (if isFetched f start end' then ((None, f), tr)
      else case fs_open B (ef_fs f) (ef_name f) (''bytes='' @ fmt_d start @ ''-'' @ fmt_d end') tr of
             (Inl err, tr') \<Rightarrow> ((Some err, (snd (Close f))\<lparr>rc := None\<rparr>), tr')
           | (Inr r, tr') \<Rightarrow>
               ((None, (snd (Close f))\<lparr>rc := Some r, startByte := start, endByte := end'\<rparr>), tr'))"
proof (cases "rc f")
  case None
  then show ?thesis
    by (simp add: Fetch_def Close_no_stream Let_def split: prod.splits sum.splits)
next
  case (Some r)
  then show ?thesis
    by (simp add: Fetch_def Close_stream Let_def split: prod.splits sum.splits)
qed

lemma Fetch_trace:
  "snd (Fetch B f start end' tr) =
     (if isFetched f start end' then tr
      else tr @ [HTTP \<lparr>Method = ''GET'', URL = url (ef_fs f) (ef_name f),
                        Range = ''bytes='' @ fmt_d start @ ''-'' @ fmt_d end'\<rparr>])"
proof -
  have "snd (fs_open B (ef_fs f) (ef_name f) (''bytes='' @ fmt_d start @ ''-'' @ fmt_d end') tr) =
      tr @ [HTTP \<lparr>Method = ''GET'', URL = url (ef_fs f) (ef_name f),
                    Range = ''bytes='' @ fmt_d start @ ''-'' @ fmt_d end'\<rparr>]"
    by (rule fs_open_trace) simp
  then show ?thesis
    by (auto simp: Fetch_unfold split: prod.splits sum.splits)
qed

text \<open>
  What \<open>Fetch\<close> does besides the request: a span inside the window costs nothing and
  changes nothing; otherwise success sets the window to the two arguments and installs
  a backing stream.
\<close>

lemma Fetch_already_fetched:
  "isFetched f start end' \<Longrightarrow> Fetch B f start end' tr = ((None, f), tr)"
  by (simp add: Fetch_def)

lemma Fetch_success_window:
  assumes "\<not> isFetched f start end'" and "Fetch B f start end' tr = ((None, f'), tr')"
  shows "startByte f' = start \<and> endByte f' = end' \<and> rc f' \<noteq> None"
  using assms by (auto simp: Fetch_unfold split: prod.splits sum.splits)

text \<open>
  After a \<open>Fetch\<close> that returns nil there is a backing stream, so the read that follows
  it in \<open>Read\<close> never dereferences nil.
\<close>

lemma Fetch_success_stream:
  assumes "Fetch B f start end' tr = ((None, f'), tr')"
  shows "rc f' \<noteq> None"
proof (cases "isFetched f start end'")
  case True
  with assms show ?thesis by (auto simp: Fetch_def isFetched_def)
next
  case False
  with assms show ?thesis by (auto dest: Fetch_success_window)
qed

section \<open>Every reachable reader state satisfies the invariant\<close>

lemma Close_inv: "window_inv f \<Longrightarrow> window_inv (snd (Close f))"
  by (simp add: Close_def window_inv_def split: option.splits)

lemma Fetch_inv: "window_inv f \<Longrightarrow> window_inv (snd (fst (Fetch B f start end' tr)))"
  by (cases "rc f")
    (auto simp: Fetch_unfold window_inv_def Close_no_stream Close_stream
      split: sum.splits prod.splits)

lemma Seek_inv: "window_inv f \<Longrightarrow> window_inv (snd (Seek f offset whence))"
  by (auto simp: Seek_def window_inv_def Let_def split: option.splits prod.splits)

lemma rc_Read_inv: "window_inv f \<Longrightarrow> window_inv (snd (rc_Read f p))"
  by (auto simp: rc_Read_def window_inv_def split: option.splits prod.splits)

lemma Read_inv:
  assumes "window_inv f"
  shows "window_inv (snd (fst (Read B f p tr)))"
proof -
  obtain ofs e f0 where s: "Seek f 0 1 = ((ofs, e), f0)"
    by (metis surj_pair)
  have f0: "window_inv f0"
    using Seek_inv [OF assms, of 0 1] s by simp
  show ?thesis
  proof (cases e)
    case (Some err)
    with s f0 show ?thesis by (simp add: Read_def)
  next
    case None
    show ?thesis
    proof (cases "isFetched f0 ofs (ofs + of_nat (length p))")
      case True
      with s None f0 show ?thesis by (simp add: Read_def rc_Read_inv)
    next
      case False
      have af: "autofetch f0"
        using f0 by (simp add: window_inv_def)
      obtain e1 f1 tr1 where F:
        "Fetch B f0 ofs (ofs + of_nat (length p) + (ofs + of_nat (length p) - ofs) * 4) tr
           = ((e1, f1), tr1)"
        by (metis surj_pair)
      have f1: "window_inv f1"
        using Fetch_inv [OF f0, of B ofs
            "ofs + of_nat (length p) + (ofs + of_nat (length p) - ofs) * 4" tr] F
        by simp
      show ?thesis
        using s None False af F f1 by (cases e1) (simp_all add: Read_def rc_Read_inv)
    qed
  qed
qed

lemma reachable_inv: "reachable f \<Longrightarrow> window_inv f"
proof (induction rule: reachable.induct)
  case (reachable_OpenFetcher fs0 name0 tr)
  show ?case by (simp add: OpenFetcher_def window_inv_def)
next
  case (reachable_Read f B p tr)
  then show ?case by (simp add: Read_inv)
next
  case (reachable_Fetch f B start end' tr)
  then show ?case by (simp add: Fetch_inv)
next
  case (reachable_Seek f offset whence)
  then show ?case by (simp add: Seek_inv)
next
  case (reachable_Close f)
  then show ?case by (simp add: Close_inv)
qed

lemma Fetch_failure_empty:
  assumes "window_inv f" and "Fetch B f start end' tr = ((Some err, f'), tr')"
  shows "rc f' = None \<and> startByte f' = 0 \<and> endByte f' = 0"
  using assms
  by (cases "rc f")
    (auto simp: Fetch_unfold window_inv_def Close_no_stream Close_stream
      split: if_splits sum.splits prod.splits)

lemma Fetch_failure_same:
  assumes "rc f = None" and "fst (fst (Fetch B f start end' tr)) \<noteq> None"
  shows "snd (fst (Fetch B f start end' tr)) = f"
  using assms
  by (auto simp: Fetch_unfold Close_no_stream split: if_splits sum.splits prod.splits)

lemma unfetched_run_stays:
  assumes "unfetched_run f g" and "rc f = None"
  shows "g = f"
  using assms
proof (induction rule: unfetched_run.induct)
  case (run_here f)
  show ?case by simp
next
  case (run_Read f g B p tr)
  then show ?case by (simp add: Read_no_stream)
next
  case (run_Seek f g offset whence)
  then show ?case by (simp add: Seek_no_stream)
next
  case (run_Close f g)
  then show ?case by (simp add: Close_no_stream)
next
  case (run_failed_Fetch f g B start end' tr)
  then show ?case by (simp add: Fetch_failure_same)
qed

section \<open>The small store, evaluated\<close>

lemma fresh_reader_eq:
  "fresh_reader =
     \<lparr>ef_name = ''a/b.txt'', ef_fs = example_fs, startByte = 0, endByte = 0, rc = None,
      autofetch = True\<rparr>"
  by (simp add: fresh_reader_def OpenFetcher_def)

lemma fs_open_example_0_2:
  "fs_open example_backend example_fs ''a/b.txt'' ''bytes=0-2'' tr =
     (Inr \<lparr>rd_s = [104, 101, 108], rd_i = 0\<rparr>,
      tr @ [HTTP \<lparr>Method = ''GET'', URL = ''https://s3.test/bucket/a/b.txt'',
                   Range = ''bytes=0-2''\<rparr>])"
  by (simp add: fs_open_def url_example_object s3util_Open_def rangeTransport_RoundTrip_def
      client_Do_def example_backend_def example_RoundTrip_def example_response_def hello_def
      ioutil_ReadAll_def bytes_NewReader_def)

lemma fs_open_example_0_15:
  "fs_open example_backend example_fs ''a/b.txt'' ''bytes=0-15'' tr =
     (Inr \<lparr>rd_s = [104, 101, 108, 108, 111], rd_i = 0\<rparr>,
      tr @ [HTTP \<lparr>Method = ''GET'', URL = ''https://s3.test/bucket/a/b.txt'',
                   Range = ''bytes=0-15''\<rparr>])"
  by (simp add: fs_open_def url_example_object s3util_Open_def rangeTransport_RoundTrip_def
      client_Do_def example_backend_def example_RoundTrip_def example_response_def hello_def
      ioutil_ReadAll_def bytes_NewReader_def)

lemma fs_open_example_7_9:
  "fs_open example_backend example_fs ''a/b.txt'' ''bytes=7-9'' tr =
     (Inl (PathError ''open'' ''https://s3.test/bucket/a/b.txt''
             (External ''s3util: unwanted http status'')),
      tr @ [HTTP \<lparr>Method = ''GET'', URL = ''https://s3.test/bucket/a/b.txt'',
                   Range = ''bytes=7-9''\<rparr>])"
  by (simp add: fs_open_def url_example_object s3util_Open_def rangeTransport_RoundTrip_def
      client_Do_def example_backend_def example_RoundTrip_def example_response_def)

lemma Fetch_fresh_0_2:
  "Fetch example_backend fresh_reader 0 2 [] =
     ((None, \<lparr>ef_name = ''a/b.txt'', ef_fs = example_fs, startByte = 0, endByte = 2,
              rc = Some \<lparr>rd_s = [104, 101, 108], rd_i = 0\<rparr>, autofetch = True\<rparr>),
      [HTTP \<lparr>Method = ''GET'', URL = ''https://s3.test/bucket/a/b.txt'',
              Range = ''bytes=0-2''\<rparr>])"
  using fs_open_example_0_2 [of "[]"]
  by (simp add: Fetch_unfold fresh_reader_eq isFetched_def Close_no_stream fmt_d_0 fmt_d_2)

lemma fetched_reader_eq:
  "fetched_reader =
     \<lparr>ef_name = ''a/b.txt'', ef_fs = example_fs, startByte = 0, endByte = 2,
      rc = Some \<lparr>rd_s = [104, 101, 108], rd_i = 0\<rparr>, autofetch = True\<rparr>"
  by (simp add: fetched_reader_def Fetch_fresh_0_2)

lemma fetched_trace_eq:
  "fetched_trace =
     [HTTP \<lparr>Method = ''GET'', URL = ''https://s3.test/bucket/a/b.txt'', Range = ''bytes=0-2''\<rparr>]"
  by (simp add: fetched_trace_def Fetch_fresh_0_2)

lemma reachable_fetched_reader: "reachable fetched_reader"
  unfolding fetched_reader_def fresh_reader_def
  by (intro reachable_Fetch reachable_OpenFetcher)

lemma Fetch_fetched_7_9:
  "Fetch example_backend fetched_reader 7 9 tr =
     ((Some (PathError ''open'' ''https://s3.test/bucket/a/b.txt''
               (External ''s3util: unwanted http status'')),
       fresh_reader),
      tr @ [HTTP \<lparr>Method = ''GET'', URL = ''https://s3.test/bucket/a/b.txt'',
                   Range = ''bytes=7-9''\<rparr>])"
  using fs_open_example_7_9 [of tr]
  by (simp add: Fetch_unfold fetched_reader_eq fresh_reader_eq isFetched_def Close_stream
      fmt_d_7 fmt_d_9 word_sle_eq)

section \<open>64-bit offsets\<close>

lemma sint_add_of_nat:
  fixes a :: int64
  assumes "sint a + int k < 2 ^ 63"
  shows "sint (a + of_nat k) = sint a + int k"
proof -
  have "a + of_nat k = word_of_int (sint a + int k)"
    by simp
  then have "sint (a + of_nat k) = signed_take_bit 63 (sint a + int k)"
    by (simp only: sint_sbintrunc') simp
  moreover have "- (2 ^ 63) \<le> sint a"
    using sint_ge [of a] by simp
  ultimately show ?thesis
    using assms by (simp add: signed_take_bit_int_eq_self)
qed

text \<open>
  Where \<open>ofs + 5 * n\<close> does not overflow, the span that autofetch asks for is never
  already fetched when the span of the read is not.
\<close>

lemma overfetch_not_fetched:
  fixes ofs :: int64
  assumes nf: "\<not> isFetched f ofs (ofs + of_nat n)"
    and bound: "sint ofs + 5 * int n < 2 ^ 63"
  shows "\<not> isFetched f ofs (ofs + of_nat (5 * n))"
proof -
  have a: "sint (ofs + of_nat n) = sint ofs + int n"
    using bound by (intro sint_add_of_nat) simp
  have b: "sint (ofs + of_nat (5 * n)) = sint ofs + 5 * int n"
    using bound sint_add_of_nat [of ofs "5 * n"] by simp
  show ?thesis
    using nf a b by (auto simp: isFetched_def word_sle_eq)
qed

lemma Read_result_trace:
  "snd (case x of
          ((Some err, f1), tr1) \<Rightarrow> (((0, Some err, p), f1), tr1)
        | ((None, f1), tr1) \<Rightarrow> (rc_Read f1 p, tr1)) = snd x"
  by (auto split: prod.splits option.splits)

section \<open>Claims about the range-cached reader\<close>

text \<open>
  C10. For every name, \<open>OpenFetcher\<close> returns a reader and a nil error and makes no call
  to the store (the trace is returned as it was); the reader has autofetch on, no backing
  stream and \<open>startByte = endByte = 0\<close>.
\<close>

theorem OpenFetcher_fresh_reader:
  "\<exists>f. OpenFetcher fs0 name0 tr = ((f, None), tr) \<and> ef_name f = name0 \<and> ef_fs f = fs0 \<and>
       autofetch f \<and> rc f = None \<and> startByte f = 0 \<and> endByte f = 0"
  by (simp add: OpenFetcher_def)

text \<open>
  C7. With no backing stream, \<open>Seek\<close> fails with the error ``must call Fetch before
  Seek'' for every offset and every whence, and leaves the reader as it was. With whence
  2 (relative to the end) \<open>Seek\<close> fails in every state of the reader: with that same
  error when there is no backing stream, with \<open>errRelOfs\<close> when there is one.
\<close>

theorem Seek_usage_errors:
  "(rc f = None \<longrightarrow>
      Seek f offset whence =
        ((0, Some (ErrorString ''s3vfs: must call Fetch before Seek'')), f)) \<and>
   Seek f offset 2 =
     ((0, Some (if rc f = None then ErrorString ''s3vfs: must call Fetch before Seek''
                else errRelOfs)), f)"
  by (cases "rc f") (simp_all add: Seek_no_stream Seek_end_relative)

theorem Seek_usage_errors_witness:
  "rc fresh_reader = None \<and>
   Seek fresh_reader 7 0 =
     ((0, Some (ErrorString ''s3vfs: must call Fetch before Seek'')), fresh_reader) \<and>
   Seek fresh_reader 7 2 =
     ((0, Some (ErrorString ''s3vfs: must call Fetch before Seek'')), fresh_reader) \<and>
   rc fetched_reader \<noteq> None \<and>
   Seek fetched_reader (- 1) 2 = ((0, Some errRelOfs), fetched_reader)"
  using Seek_usage_errors [of fresh_reader 7 0] Seek_usage_errors [of fetched_reader "- 1" 0]
  by (simp add: fresh_reader_eq fetched_reader_eq)

text \<open>
  C2. For every reachable state of a reader and all \<open>start\<close>, \<open>end\<close>: if
  \<open>Fetch(start, end)\<close> returns an error, the reader is left with no backing stream and
  \<open>startByte = endByte = 0\<close>, not with the window it had. From there, as long as no
  \<open>Fetch\<close> succeeds, no call of the reader's methods changes that state, and every
  \<open>Read\<close> returns 0 bytes and the error of a reader without a stream, on any backend.
\<close>

theorem Fetch_failure_leaves_empty_window:
  assumes "reachable f" and "Fetch B f start end' tr = ((Some err, f'), tr')"
  shows "rc f' = None \<and> startByte f' = 0 \<and> endByte f' = 0 \<and>
         (\<forall>g. unfetched_run f' g \<longrightarrow>
            g = f' \<and>
            (\<forall>B' p tr2. Read B' g p tr2 =
               (((0, Some (ErrorString ''s3vfs: must call Fetch before Seek''), p), g), tr2)))"
proof -
  have e: "rc f' = None \<and> startByte f' = 0 \<and> endByte f' = 0"
    using Fetch_failure_empty [OF reachable_inv [OF assms(1)] assms(2)] .
  have r: "g = f' \<and>
      (\<forall>B' p tr2. Read B' g p tr2 =
         (((0, Some (ErrorString ''s3vfs: must call Fetch before Seek''), p), g), tr2))"
    if "unfetched_run f' g" for g
  proof -
    have "g = f'"
      using unfetched_run_stays [OF that] e by simp
    then show ?thesis
      using e by (simp add: Read_no_stream)
  qed
  show ?thesis
    using e r by blast
qed

text \<open>
  On the small store: the reader that holds the window \<open>[0, 2)\<close> asks for
  \<open>Fetch(7, 9)\<close>, the store answers 416, and the reader is back in its first state,
  where a \<open>Read\<close> and a \<open>Read\<close> after a \<open>Seek\<close> both fail.
\<close>

theorem Fetch_failure_leaves_empty_window_witness:
  "reachable fetched_reader \<and> startByte fetched_reader = 0 \<and> endByte fetched_reader = 2 \<and>
   rc fetched_reader = Some \<lparr>rd_s = [104, 101, 108], rd_i = 0\<rparr> \<and>
   fst (Fetch example_backend fetched_reader 7 9 fetched_trace) =
     (Some (PathError ''open'' ''https://s3.test/bucket/a/b.txt''
              (External ''s3util: unwanted http status'')), fresh_reader) \<and>
   rc fresh_reader = None \<and> startByte fresh_reader = 0 \<and> endByte fresh_reader = 0 \<and>
   unfetched_run fresh_reader (snd (Seek fresh_reader 1 0)) \<and>
   Read example_backend (snd (Seek fresh_reader 1 0)) [0, 0] [] =
     (((0, Some (ErrorString ''s3vfs: must call Fetch before Seek''), [0, 0]),
       snd (Seek fresh_reader 1 0)), [])"
proof -
  have run: "unfetched_run fresh_reader (snd (Seek fresh_reader 1 0))"
    by (intro run_Seek run_here)
  have "rc fresh_reader = None \<and> startByte fresh_reader = 0 \<and> endByte fresh_reader = 0 \<and>
         (\<forall>g. unfetched_run fresh_reader g \<longrightarrow>
            g = fresh_reader \<and>
            (\<forall>B' p tr2. Read B' g p tr2 =
               (((0, Some (ErrorString ''s3vfs: must call Fetch before Seek''), p), g), tr2)))"
    by (rule Fetch_failure_leaves_empty_window
        [OF reachable_fetched_reader Fetch_fetched_7_9 [of fetched_trace]])
  with run show ?thesis
    by (simp add: reachable_fetched_reader Fetch_fetched_7_9) (simp add: fetched_reader_eq)
qed

text \<open>
  C1, as the code has it. Let the reader have autofetch on. With no backing stream (the
  state \<open>OpenFetcher\<close> returns, and the one after \<open>Close\<close> or a failed \<open>Fetch\<close>)
  \<open>Read\<close> fails with ``must call Fetch before Seek'' and calls neither \<open>Fetch\<close> nor the
  store. With a backing stream at a position that is not negative, let \<open>ofs\<close> be the
  current offset, \<open>L\<close> the length of the buffer and \<open>fetchEnd = ofs + L + 4 * L\<close> in
  64-bit arithmetic. If the span \<open>[ofs, ofs + L)\<close> is fetched, \<open>Read\<close> is the read of
  the backing stream and the trace is unchanged. If it is not, \<open>Read\<close> calls
  \<open>Fetch(ofs, fetchEnd)\<close> once, returns 0 bytes and its error if it fails and the read
  of the backing stream otherwise; the calls to the store are those of that \<open>Fetch\<close>:
  one GET with the header \<open>bytes=ofs-fetchEnd\<close>, or none if \<open>[ofs, fetchEnd)\<close> is
  fetched already, which cannot be when \<open>ofs + 5 * L\<close> does not overflow.
\<close>

theorem Read_autofetch:
  assumes "autofetch f"
  shows
  "(rc f = None \<longrightarrow>
      Read B f p tr =
        (((0, Some (ErrorString ''s3vfs: must call Fetch before Seek''), p), f), tr)) \<and>
   (\<forall>r. rc f = Some r \<and> \<not> rd_i r <s 0 \<longrightarrow>
      (let ofs = rd_i r + startByte f; L = of_nat (length p); fetchEnd = ofs + L + 4 * L in
        (isFetched f ofs (ofs + L) \<longrightarrow> Read B f p tr = (rc_Read f p, tr)) \<and>
        (\<not> isFetched f ofs (ofs + L) \<longrightarrow>
           Read B f p tr =
             (case Fetch B f ofs fetchEnd tr of
                ((Some err, f1), tr1) \<Rightarrow> (((0, Some err, p), f1), tr1)
              | ((None, f1), tr1) \<Rightarrow> (rc_Read f1 p, tr1)) \<and>
           snd (Read B f p tr) =
             (if isFetched f ofs fetchEnd then tr
              else tr @ [HTTP \<lparr>Method = ''GET'', URL = url (ef_fs f) (ef_name f),
                                Range = ''bytes='' @ fmt_d ofs @ ''-'' @ fmt_d fetchEnd\<rparr>]) \<and>
           (sint ofs + 5 * int (length p) < 2 ^ 63 \<longrightarrow> \<not> isFetched f ofs fetchEnd))))"
proof (intro conjI allI impI)
  assume "rc f = None"
  then show "Read B f p tr =
      (((0, Some (ErrorString ''s3vfs: must call Fetch before Seek''), p), f), tr)"
    by (rule Read_no_stream)
next
  fix r
  assume st: "rc f = Some r \<and> \<not> rd_i r <s 0"
  define ofs where "ofs = rd_i r + startByte f"
  define L :: int64 where "L = of_nat (length p)"
  define fetchEnd where "fetchEnd = ofs + L + 4 * L"
  have sk: "Seek f 0 1 = ((ofs, None), f)"
    using st by (simp add: Seek_current ofs_def)
  have fe: "ofs + L + (ofs + L - ofs) * 4 = fetchEnd"
    by (simp add: fetchEnd_def)
  have fe5: "fetchEnd = ofs + of_nat (5 * length p)"
    by (simp add: fetchEnd_def L_def)
  have hit: "Read B f p tr = (rc_Read f p, tr)" if "isFetched f ofs (ofs + L)"
    using that sk by (simp add: Read_def L_def)
  have miss: "Read B f p tr =
             (case Fetch B f ofs fetchEnd tr of
                ((Some err, f1), tr1) \<Rightarrow> (((0, Some err, p), f1), tr1)
              | ((None, f1), tr1) \<Rightarrow> (rc_Read f1 p, tr1))"
    if "\<not> isFetched f ofs (ofs + L)"
    using that sk assms fe by (simp add: Read_def L_def [symmetric] Let_def)
  have tr: "snd (Read B f p tr) =
             (if isFetched f ofs fetchEnd then tr
              else tr @ [HTTP \<lparr>Method = ''GET'', URL = url (ef_fs f) (ef_name f),
                                Range = ''bytes='' @ fmt_d ofs @ ''-'' @ fmt_d fetchEnd\<rparr>])"
    if "\<not> isFetched f ofs (ofs + L)"
    unfolding miss [OF that] Read_result_trace by (rule Fetch_trace)
  have nov: "\<not> isFetched f ofs fetchEnd"
    if "\<not> isFetched f ofs (ofs + L)" and "sint ofs + 5 * int (length p) < 2 ^ 63"
    unfolding fe5 using that by (intro overfetch_not_fetched) (simp_all add: L_def)
  show "let ofs = rd_i r + startByte f; L = of_nat (length p); fetchEnd = ofs + L + 4 * L in
        (isFetched f ofs (ofs + L) \<longrightarrow> Read B f p tr = (rc_Read f p, tr)) \<and>
        (\<not> isFetched f ofs (ofs + L) \<longrightarrow>
           Read B f p tr =
             (case Fetch B f ofs fetchEnd tr of
                ((Some err, f1), tr1) \<Rightarrow> (((0, Some err, p), f1), tr1)
              | ((None, f1), tr1) \<Rightarrow> (rc_Read f1 p, tr1)) \<and>
           snd (Read B f p tr) =
             (if isFetched f ofs fetchEnd then tr
              else tr @ [HTTP \<lparr>Method = ''GET'', URL = url (ef_fs f) (ef_name f),
                                Range = ''bytes='' @ fmt_d ofs @ ''-'' @ fmt_d fetchEnd\<rparr>]) \<and>
           (sint ofs + 5 * int (length p) < 2 ^ 63 \<longrightarrow> \<not> isFetched f ofs fetchEnd))"
    unfolding Let_def ofs_def [symmetric] L_def [symmetric] fetchEnd_def [symmetric]
    using hit miss tr nov by blast
qed

text \<open>
  On the small store, the reader with the window \<open>[0, 2)\<close> at offset 0: a read into
  three bytes is not inside the window and makes the one request \<open>bytes=0-15\<close>; a read
  into two bytes is inside and makes none.
\<close>

theorem Read_autofetch_witness:
  "autofetch fetched_reader \<and>
   rc fetched_reader = Some \<lparr>rd_s = [104, 101, 108], rd_i = 0\<rparr> \<and>
   startByte fetched_reader = 0 \<and> endByte fetched_reader = 2 \<and>
   snd (Read example_backend fetched_reader [0, 0, 0] fetched_trace) =
     fetched_trace @ [HTTP \<lparr>Method = ''GET'', URL = ''https://s3.test/bucket/a/b.txt'',
                             Range = ''bytes=0-15''\<rparr>] \<and>
   Read example_backend fetched_reader [0, 0] fetched_trace =
     (rc_Read fetched_reader [0, 0], fetched_trace)"
proof -
  let ?r = "\<lparr>rd_s = [104, 101, 108], rd_i = 0\<rparr> :: bytes_Reader"
  let ?ofs = "rd_i ?r + startByte fetched_reader"
  have af: "autofetch fetched_reader"
    by (simp add: fetched_reader_eq)
  have st: "rc fetched_reader = Some ?r \<and> \<not> rd_i ?r <s 0"
    by (simp add: fetched_reader_eq)
  have miss: "\<not> isFetched fetched_reader ?ofs (?ofs + of_nat (length [0, 0, 0 :: byte]))"
    by (simp add: isFetched_def fetched_reader_eq word_sle_eq)
  have hit: "isFetched fetched_reader ?ofs (?ofs + of_nat (length [0, 0 :: byte]))"
    by (simp add: isFetched_def fetched_reader_eq word_sle_eq)
  note three = Read_autofetch [OF af, of example_backend "[0, 0, 0]" fetched_trace,
      THEN conjunct2, THEN spec, THEN mp, OF st, unfolded Let_def]
  note two = Read_autofetch [OF af, of example_backend "[0, 0]" fetched_trace,
      THEN conjunct2, THEN spec, THEN mp, OF st, unfolded Let_def]
  note trace3 = three [THEN conjunct2, THEN mp, OF miss, THEN conjunct2, THEN conjunct1]
  note read2 = two [THEN conjunct1, THEN mp, OF hit]
  have "snd (Read example_backend fetched_reader [0, 0, 0] fetched_trace) =
     fetched_trace @ [HTTP \<lparr>Method = ''GET'', URL = ''https://s3.test/bucket/a/b.txt'',
                             Range = ''bytes=0-15''\<rparr>]"
    unfolding trace3
    by (simp add: isFetched_def fetched_reader_eq word_sle_eq url_example_object fmt_d_0
        fmt_d_15)
  with read2 show ?thesis
    by (simp add: fetched_reader_eq)
qed

text \<open>
  The claim as stated includes the state in which no window has been established. There
  the span \<open>[0, 3)\<close> of a read into three bytes is not fetched and autofetch is on, yet
  \<open>Read\<close> returns the error of \<open>Seek\<close> and the store sees no request, whereas
  \<open>Fetch(0, 15)\<close> on the same reader would have made one request and succeeded.
\<close>

theorem Read_initial_state_counterexample:
  "autofetch fresh_reader \<and> \<not> isFetched fresh_reader 0 (0 + 3) \<and>
   Read example_backend fresh_reader [0, 0, 0] [] =
     (((0, Some (ErrorString ''s3vfs: must call Fetch before Seek''), [0, 0, 0]),
       fresh_reader), []) \<and>
   fst (fst (Fetch example_backend fresh_reader 0 (0 + 3 + 4 * 3) [])) = None \<and>
   snd (Fetch example_backend fresh_reader 0 (0 + 3 + 4 * 3) []) =
     [HTTP \<lparr>Method = ''GET'', URL = ''https://s3.test/bucket/a/b.txt'',
             Range = ''bytes=0-15''\<rparr>]"
  using fs_open_example_0_15 [of "[]"]
  by (simp add: Read_no_stream Fetch_unfold isFetched_def fresh_reader_eq Close_no_stream
      fmt_d_0 fmt_d_15)

text \<open>
  C3, at \<open>Fetch(0, 2)\<close> on a reader just opened. Whatever the backend and the bucket,
  the one request carries the header \<open>bytes=0-2\<close>, which under the inclusive convention
  of HTTP names the three bytes 0, 1 and 2, one more than the span \<open>[0, 2)\<close>. On the
  small store the answer is taken as it comes: the backing stream holds three bytes and
  the window is set to \<open>[0, 2)\<close>.
\<close>

theorem Fetch_range_header_includes_end:
  "snd (Fetch B (fst (fst (OpenFetcher fs0 name0 tr0))) 0 2 tr) =
     tr @ [HTTP \<lparr>Method = ''GET'', URL = url fs0 name0, Range = ''bytes=0-2''\<rparr>] \<and>
   fst (Fetch example_backend fresh_reader 0 2 []) =
     (None, \<lparr>ef_name = ''a/b.txt'', ef_fs = example_fs, startByte = 0, endByte = 2,
             rc = Some \<lparr>rd_s = [104, 101, 108], rd_i = 0\<rparr>, autofetch = True\<rparr>)"
  by (simp add: Fetch_trace Fetch_fresh_0_2 isFetched_def OpenFetcher_def fmt_d_0 fmt_d_2)

section \<open>Claims about Lstat\<close>

lemma url_example_a: "url example_fs ''a'' = ''https://s3.test/bucket/a''"
  by (simp add: url_def example_fs_def Join_def Clean_def clean_step_def)

lemma url_example_root: "url example_fs [] = ''https://s3.test/bucket''"
  by (simp add: url_def example_fs_def Join_def Clean_def clean_step_def)

lemma url_example_missing: "url example_fs ''missing'' = ''https://s3.test/bucket/missing''"
  by (simp add: url_def example_fs_def Join_def Clean_def clean_step_def)

lemma url_example_secret: "url example_fs ''secret'' = ''https://s3.test/bucket/secret''"
  by (simp add: url_def example_fs_def Join_def Clean_def clean_step_def)

lemma list_url_example:
  "bucket_ResolveReference example_fs (RefRawQuery [(''prefix'', pre), (''max-keys'', ''1'')]) =
     ''https://s3.test/bucket?prefix='' @ pre @ ''&max-keys=1&''"
  by (simp add: example_fs_def)

lemma normalise_examples:
  "TrimPrefix (Clean ''a'') ''/'' = ''a''"
  "TrimPrefix (Clean ''/a/'') ''/'' = ''a''"
  "TrimPrefix (Clean ''a/b.txt'') ''/'' = ''a/b.txt''"
  "TrimPrefix (Clean ''missing'') ''/'' = ''missing''"
  "TrimPrefix (Clean ''secret'') ''/'' = ''secret''"
  "TrimPrefix (Clean ''/'') ''/'' = []"
  "TrimPrefix (Clean []) ''/'' = ''.''"
  "TrimPrefix (Clean ''a/..'') ''/'' = ''.''"
  by (simp_all add: TrimPrefix_def Clean_def clean_step_def)

text \<open>
  Where the normalised name is \<open>.\<close> (the empty path, \<open>.\<close>, \<open>a/..\<close> and the like),
  \<open>lstat\<close> answers at once with the directory and the store sees nothing.
\<close>

lemma lstat_dot:
  "TrimPrefix (Clean name0) ''/'' = ''.'' \<Longrightarrow>
   lstat B fs name0 tr =
     (Inr \<lparr>fi_name = ''.'', fi_size = 0, fi_mode = ModeDir, fi_modTime = zero_Time,
           fi_sys = None\<rparr>, tr)"
  by (simp add: lstat_def)

text \<open>The other names: \<open>lstat\<close> after a listing that was answered, decoded and closed.\<close>

lemma lstat_listed:
  assumes "name = TrimPrefix (Clean name0) ''/''" and "name \<noteq> ''.''"
    and "u = bucket_ResolveReference fs
               (RefRawQuery [(''prefix'', name @ ''/''), (''max-keys'', ''1'')])"
    and "http_NewRequest B ''GET'' u = None"
    and "RoundTrip B tr \<lparr>Method = ''GET'', URL = u, Range = []\<rparr> = Inr resp"
    and "StatusCode resp = 200" and "xml_Decode B resp = Inr contents"
    and "BodyCloseErr resp = None"
  shows "lstat B fs name0 tr =
     (if length contents = 1 then
        (Inr \<lparr>fi_name = name, fi_size = 0, fi_mode = ModeDir, fi_modTime = zero_Time,
              fi_sys = None\<rparr>, tr @ [HTTP \<lparr>Method = ''GET'', URL = u, Range = []\<rparr>])
      else lstat_probe B fs name (tr @ [HTTP \<lparr>Method = ''GET'', URL = u, Range = []\<rparr>]))"
  using assms by (simp add: lstat_def Let_def client_Do_def)

lemma IsDir_ModeDir:
  "IsDir \<lparr>fi_name = n, fi_size = sz, fi_mode = ModeDir, fi_modTime = t, fi_sys = y\<rparr>"
  by (simp add: IsDir_def ModeDir_def)

lemma Lstat_Inr: "lstat B fs name0 tr = (Inr fi, tr') \<Longrightarrow> Lstat B fs name0 tr = (Inr fi, tr')"
  by (simp add: Lstat_def)

lemma Lstat_Inl:
  "lstat B fs name0 tr = (Inl e, tr') \<Longrightarrow>
   Lstat B fs name0 tr = (Inl (PathError ''lstat'' (url fs name0) e), tr')"
  by (simp add: Lstat_def)

text \<open>
  The path \<open>/\<close> is not among them: on every backend that lets the request be built,
  \<open>lstat\<close> of \<open>/\<close> sends the listing request for the prefix \<open>/\<close>.
\<close>

lemma lstat_slash_requests:
  assumes "u = bucket_ResolveReference fs (RefRawQuery [(''prefix'', ''/''), (''max-keys'', ''1'')])"
    and "http_NewRequest B ''GET'' u = None"
  shows "\<exists>rest. snd (lstat B fs ''/'' tr) =
           tr @ HTTP \<lparr>Method = ''GET'', URL = u, Range = []\<rparr> # rest"
  using assms
  by (auto simp: lstat_def lstat_probe_def client_Do_def normalise_examples Let_def
      split: sum.splits option.splits)

text \<open>
  C4, at the path \<open>/\<close>. \<open>filepath.Clean\<close> leaves \<open>/\<close> as it is, \<open>TrimPrefix\<close> makes it
  the empty string, and the test for the root compares with \<open>.\<close>: so \<open>lstat\<close> goes to
  the store. On the small store it lists the prefix \<open>/\<close>, finds nothing, probes the
  bucket URL with HEAD and reports what it finds there: an entry with the empty name that
  is not a directory, after two requests.
\<close>

theorem lstat_slash_goes_to_store:
  "TrimPrefix (Clean ''/'') ''/'' = [] \<and>
   lstat example_backend example_fs ''/'' [] =
     (Inr \<lparr>fi_name = [], fi_size = 0, fi_mode = 0, fi_modTime = zero_Time, fi_sys = None\<rparr>,
      [HTTP \<lparr>Method = ''GET'', URL = ''https://s3.test/bucket?prefix=/&max-keys=1&'',
              Range = []\<rparr>,
       HTTP \<lparr>Method = ''HEAD'', URL = ''https://s3.test/bucket'', Range = []\<rparr>]) \<and>
   \<not> IsDir \<lparr>fi_name = [], fi_size = 0, fi_mode = 0, fi_modTime = zero_Time, fi_sys = None\<rparr>"
  by (simp add: normalise_examples lstat_def lstat_probe_def client_Do_def url_example_root
      list_url_example example_backend_def example_RoundTrip_def example_response_def
      example_xml_Decode_def example_time_Parse_def IsDir_def)

text \<open>
  C5. For every path whose normalised name \<open>p\<close> is not the root: if the listing of the
  prefix \<open>p/\<close> with \<open>max-keys=1\<close> is answered with status 200, decodes and closes without
  error, and holds a key (one key, as the limit allows), then \<open>lstat\<close> returns a
  directory of size 0 named \<open>p\<close>, and the listing is the only request: the key \<open>p\<close> is
  not probed, whatever the store would have answered. \<open>Lstat\<close> returns the same.
\<close>

theorem lstat_prefix_match_is_directory:
  assumes "name = TrimPrefix (Clean name0) ''/''" and "name \<noteq> ''.''"
    and "u = bucket_ResolveReference fs
               (RefRawQuery [(''prefix'', name @ ''/''), (''max-keys'', ''1'')])"
    and "http_NewRequest B ''GET'' u = None"
    and "RoundTrip B tr \<lparr>Method = ''GET'', URL = u, Range = []\<rparr> = Inr resp"
    and "StatusCode resp = 200" and "xml_Decode B resp = Inr contents"
    and "BodyCloseErr resp = None"
    and "contents \<noteq> []" and "length contents \<le> 1"
  shows "lstat B fs name0 tr =
           (Inr \<lparr>fi_name = name, fi_size = 0, fi_mode = ModeDir, fi_modTime = zero_Time,
                 fi_sys = None\<rparr>, tr @ [HTTP \<lparr>Method = ''GET'', URL = u, Range = []\<rparr>]) \<and>
         Lstat B fs name0 tr = lstat B fs name0 tr \<and>
         IsDir \<lparr>fi_name = name, fi_size = 0, fi_mode = ModeDir, fi_modTime = zero_Time,
                fi_sys = None\<rparr>"
proof -
  have one: "length contents = 1"
    using assms(9,10) by (cases contents) simp_all
  have l: "lstat B fs name0 tr =
           (Inr \<lparr>fi_name = name, fi_size = 0, fi_mode = ModeDir, fi_modTime = zero_Time,
                 fi_sys = None\<rparr>, tr @ [HTTP \<lparr>Method = ''GET'', URL = u, Range = []\<rparr>])"
    using lstat_listed [OF assms(1-8)] one by simp
  show ?thesis
    using l Lstat_Inr [OF l] by (simp add: IsDir_ModeDir)
qed

text \<open>
  On the small store both the key \<open>a\<close> and keys under \<open>a/\<close> exist: \<open>lstat\<close> of \<open>/a/\<close>
  is a directory after the one listing request, though a HEAD of \<open>a\<close> would have found
  the object.
\<close>

theorem lstat_prefix_match_is_directory_witness:
  "''a'' = TrimPrefix (Clean ''/a/'') ''/'' \<and> ''a'' \<noteq> ''.'' \<and>
   RoundTrip example_backend []
     \<lparr>Method = ''GET'', URL = ''https://s3.test/bucket?prefix=a/&max-keys=1&'', Range = []\<rparr>
     = Inr (example_response 200 [1]) \<and>
   xml_Decode example_backend (example_response 200 [1]) = Inr [''a/b.txt''] \<and>
   RoundTrip example_backend []
     \<lparr>Method = ''HEAD'', URL = url example_fs ''a'', Range = []\<rparr> = Inr (example_head 1) \<and>
   lstat example_backend example_fs ''/a/'' [] =
     (Inr \<lparr>fi_name = ''a'', fi_size = 0, fi_mode = ModeDir, fi_modTime = zero_Time,
           fi_sys = None\<rparr>,
      [HTTP \<lparr>Method = ''GET'', URL = ''https://s3.test/bucket?prefix=a/&max-keys=1&'',
              Range = []\<rparr>])"
proof -
  have n: "''a'' = TrimPrefix (Clean ''/a/'') ''/''" and d: "''a'' \<noteq> ''.''"
    by (simp_all add: normalise_examples)
  have u: "''https://s3.test/bucket?prefix=a/&max-keys=1&'' =
      bucket_ResolveReference example_fs
        (RefRawQuery [(''prefix'', ''a'' @ ''/''), (''max-keys'', ''1'')])"
    by (simp add: list_url_example)
  have q: "http_NewRequest example_backend ''GET''
      ''https://s3.test/bucket?prefix=a/&max-keys=1&'' = None"
    by (simp add: example_backend_def)
  have r: "RoundTrip example_backend []
     \<lparr>Method = ''GET'', URL = ''https://s3.test/bucket?prefix=a/&max-keys=1&'', Range = []\<rparr>
     = Inr (example_response 200 [1])"
    by (simp add: example_backend_def example_RoundTrip_def)
  have s: "StatusCode (example_response 200 [1]) = 200"
    and c: "BodyCloseErr (example_response 200 [1]) = None"
    by (simp_all add: example_response_def)
  have x: "xml_Decode example_backend (example_response 200 [1]) = Inr [''a/b.txt'']"
    by (simp add: example_backend_def example_xml_Decode_def example_response_def)
  have h: "RoundTrip example_backend []
     \<lparr>Method = ''HEAD'', URL = url example_fs ''a'', Range = []\<rparr> = Inr (example_head 1)"
    by (simp add: example_backend_def example_RoundTrip_def url_example_a)
  from lstat_prefix_match_is_directory [OF n d u q r s x c]
  show ?thesis
    using n d r x h by simp
qed

text \<open>
  C6. For every path whose normalised name \<open>p\<close> is not the root and whose listing is
  answered with status 200, decodes to no key and closes without error, \<open>lstat\<close> sends
  one more request, a HEAD of the URL of \<open>p\<close>, and if that is answered: status 404
  gives \<open>os.ErrNotExist\<close>; any other status but 200 gives a \<open>respError\<close> with that
  status code and the body of the answer; status 200 gives a file (mode 0) named \<open>p\<close>
  whose size is the answer's content length and whose modification time is its
  \<open>last-modified\<close> header as \<open>time.Parse\<close> reads it (the zero time if it does not
  parse). \<open>Lstat\<close> returns the file unchanged and the error inside an \<open>os.PathError\<close>.
\<close>

theorem lstat_probe_outcomes:
  assumes "name = TrimPrefix (Clean name0) ''/''" and "name \<noteq> ''.''"
    and "u = bucket_ResolveReference fs
               (RefRawQuery [(''prefix'', name @ ''/''), (''max-keys'', ''1'')])"
    and "http_NewRequest B ''GET'' u = None"
    and "RoundTrip B tr \<lparr>Method = ''GET'', URL = u, Range = []\<rparr> = Inr resp"
    and "StatusCode resp = 200" and "xml_Decode B resp = Inr contents"
    and "BodyCloseErr resp = None"
    and "contents = []"
    and "http_NewRequest B ''HEAD'' (url fs name) = None"
    and "tr' = tr @ [HTTP \<lparr>Method = ''GET'', URL = u, Range = []\<rparr>]"
    and "RoundTrip B tr' \<lparr>Method = ''HEAD'', URL = url fs name, Range = []\<rparr> = Inr head"
    and "result =
           (if StatusCode head = 404 then Inl ErrNotExist
            else if StatusCode head \<noteq> 200 then Inl (RespError (StatusCode head) (Body head))
            else Inr \<lparr>fi_name = name, fi_size = ContentLength head, fi_mode = 0,
                      fi_modTime = (case time_Parse B (Header head ''last-modified'') of
                                      Inl err \<Rightarrow> zero_Time | Inr t \<Rightarrow> t),
                      fi_sys = None\<rparr>)"
  shows "lstat B fs name0 tr =
           (result, tr' @ [HTTP \<lparr>Method = ''HEAD'', URL = url fs name, Range = []\<rparr>]) \<and>
         Lstat B fs name0 tr =
           (case result of
              Inl err \<Rightarrow> Inl (PathError ''lstat'' (url fs name0) err)
            | Inr fi \<Rightarrow> Inr fi,
            tr' @ [HTTP \<lparr>Method = ''HEAD'', URL = url fs name, Range = []\<rparr>])"
proof -
  have "lstat B fs name0 tr = lstat_probe B fs name tr'"
    using lstat_listed [OF assms(1-8)] assms(9,11) by simp
  also have "\<dots> = (result, tr' @ [HTTP \<lparr>Method = ''HEAD'', URL = url fs name, Range = []\<rparr>])"
    using assms(10,12,13) by (simp add: lstat_probe_def client_Do_def newRespError_def)
  finally have l: "lstat B fs name0 tr =
      (result, tr' @ [HTTP \<lparr>Method = ''HEAD'', URL = url fs name, Range = []\<rparr>])" .
  then show ?thesis
    by (cases result) (simp_all add: Lstat_def)
qed

text \<open>
  On the small store: \<open>a/b.txt\<close> is a file of five bytes with the time of its header,
  \<open>missing\<close> does not exist, and \<open>secret\<close> is refused with status 403 and the body
  of the refusal.
\<close>

theorem lstat_probe_outcomes_witness:
  "lstat example_backend example_fs ''a/b.txt'' [] =
     (Inr \<lparr>fi_name = ''a/b.txt'', fi_size = 5, fi_mode = 0, fi_modTime = Time 63929044800,
           fi_sys = None\<rparr>,
      [HTTP \<lparr>Method = ''GET'', URL = ''https://s3.test/bucket?prefix=a/b.txt/&max-keys=1&'',
              Range = []\<rparr>,
       HTTP \<lparr>Method = ''HEAD'', URL = ''https://s3.test/bucket/a/b.txt'', Range = []\<rparr>]) \<and>
   Lstat example_backend example_fs ''missing'' [] =
     (Inl (PathError ''lstat'' ''https://s3.test/bucket/missing'' ErrNotExist),
      [HTTP \<lparr>Method = ''GET'', URL = ''https://s3.test/bucket?prefix=missing/&max-keys=1&'',
              Range = []\<rparr>,
       HTTP \<lparr>Method = ''HEAD'', URL = ''https://s3.test/bucket/missing'', Range = []\<rparr>]) \<and>
   lstat example_backend example_fs ''secret'' [] =
     (Inl (RespError 403 [110, 111]),
      [HTTP \<lparr>Method = ''GET'', URL = ''https://s3.test/bucket?prefix=secret/&max-keys=1&'',
              Range = []\<rparr>,
       HTTP \<lparr>Method = ''HEAD'', URL = ''https://s3.test/bucket/secret'', Range = []\<rparr>])"
proof -
  note ev = normalise_examples list_url_example url_example_object url_example_missing
    url_example_secret example_backend_def example_RoundTrip_def example_response_def
    example_head_def example_xml_Decode_def example_time_Parse_def
  have got_file: "lstat example_backend example_fs ''a/b.txt'' [] =
     (Inr \<lparr>fi_name = ''a/b.txt'', fi_size = 5, fi_mode = 0, fi_modTime = Time 63929044800,
           fi_sys = None\<rparr>,
      [HTTP \<lparr>Method = ''GET'', URL = ''https://s3.test/bucket?prefix=a/b.txt/&max-keys=1&'',
              Range = []\<rparr>,
       HTTP \<lparr>Method = ''HEAD'', URL = ''https://s3.test/bucket/a/b.txt'', Range = []\<rparr>])"
    using lstat_probe_outcomes [where B = example_backend and fs = example_fs
        and ?name0.0 = "''a/b.txt''" and name = "''a/b.txt''" and tr = "[]"
        and resp = "example_response 200 []" and contents = "[]" and head = "example_head 5",
        OF _ _ refl _ _ _ _ _ refl _ refl _ refl, THEN conjunct1]
    by (simp add: ev)
  have got_missing: "Lstat example_backend example_fs ''missing'' [] =
     (Inl (PathError ''lstat'' ''https://s3.test/bucket/missing'' ErrNotExist),
      [HTTP \<lparr>Method = ''GET'', URL = ''https://s3.test/bucket?prefix=missing/&max-keys=1&'',
              Range = []\<rparr>,
       HTTP \<lparr>Method = ''HEAD'', URL = ''https://s3.test/bucket/missing'', Range = []\<rparr>])"
    using lstat_probe_outcomes [where B = example_backend and fs = example_fs
        and ?name0.0 = "''missing''" and name = "''missing''" and tr = "[]"
        and resp = "example_response 200 []" and contents = "[]"
        and head = "example_response 404 []",
        OF _ _ refl _ _ _ _ _ refl _ refl _ refl, THEN conjunct2]
    by (simp add: ev)
  have got_secret: "lstat example_backend example_fs ''secret'' [] =
     (Inl (RespError 403 [110, 111]),
      [HTTP \<lparr>Method = ''GET'', URL = ''https://s3.test/bucket?prefix=secret/&max-keys=1&'',
              Range = []\<rparr>,
       HTTP \<lparr>Method = ''HEAD'', URL = ''https://s3.test/bucket/secret'', Range = []\<rparr>])"
    using lstat_probe_outcomes [where B = example_backend and fs = example_fs
        and ?name0.0 = "''secret''" and name = "''secret''" and tr = "[]"
        and resp = "example_response 200 []" and contents = "[]"
        and head = "example_response 403 [110, 111]",
        OF _ _ refl _ _ _ _ _ refl _ refl _ refl, THEN conjunct1]
    by (simp add: ev)
  from got_file got_missing got_secret show ?thesis
    by (intro conjI)
qed

section \<open>Claims about errors and Remove\<close>

lemma url_example_down: "url example_fs ''down'' = ''https://s3.test/bucket/down''"
  by (simp add: url_def example_fs_def Join_def Clean_def clean_step_def)

lemma url_example_gone: "url example_fs ''gone'' = ''https://s3.test/bucket/gone''"
  by (simp add: url_def example_fs_def Join_def Clean_def clean_step_def)

lemma url_example_verbose: "url example_fs ''verbose'' = ''https://s3.test/bucket/verbose''"
  by (simp add: url_def example_fs_def Join_def Clean_def clean_step_def)

lemma url_example_escape: "url example_fs ''%zz'' = ''https://s3.test/bucket/%zz''"
  by (simp add: url_def example_fs_def Join_def Clean_def clean_step_def)

text \<open>
  C8, as the code has it. Every error that \<open>Lstat\<close> or \<open>Stat\<close> returns is an
  \<open>os.PathError\<close> with the operation \<open>lstat\<close> and the URL of the path. An error of
  \<open>s3util.Open\<close> comes out of \<open>Open\<close> as a path error with the operation \<open>open\<close>, an
  error of \<open>s3util.NewFile\<close> out of \<open>ReadDir\<close> with \<open>readdir\<close>, an error of
  \<open>s3util.Create\<close> out of \<open>Create\<close> with \<open>create\<close>, each with the URL of the path.
\<close>

theorem adapter_errors_wrapped:
  "(\<forall>err tr'. Lstat B fs name0 tr = (Inl err, tr') \<longrightarrow>
      (\<exists>e. err = PathError ''lstat'' (url fs name0) e)) \<and>
   (\<forall>err tr'. Stat B fs name0 tr = (Inl err, tr') \<longrightarrow>
      (\<exists>e. err = PathError ''lstat'' (url fs name0) e)) \<and>
   (\<forall>e tr'. s3util_Open (client_Do B) (url fs name0) tr = (Inl e, tr') \<longrightarrow>
      Open B fs name0 tr = (Inl (PathError ''open'' (url fs name0) e), tr')) \<and>
   (\<forall>e. s3util_NewFile B (url fs name0) = Some e \<longrightarrow>
      ReadDir B fs name0 tr = (Inl (PathError ''readdir'' (url fs name0) e), tr)) \<and>
   (\<forall>e. s3util_Create B tr (url fs name0) = Inl e \<longrightarrow>
      Create B fs name0 tr =
        (Inl (PathError ''create'' (url fs name0) e), tr @ [S3Create (url fs name0)]))"
proof (intro conjI allI impI)
  fix err tr'
  assume "Lstat B fs name0 tr = (Inl err, tr')"
  then show "\<exists>e. err = PathError ''lstat'' (url fs name0) e"
    by (auto simp: Lstat_def split: prod.splits sum.splits)
next
  fix err tr'
  assume "Stat B fs name0 tr = (Inl err, tr')"
  then show "\<exists>e. err = PathError ''lstat'' (url fs name0) e"
    by (auto simp: Stat_def Lstat_def split: prod.splits sum.splits)
next
  fix e tr'
  assume "s3util_Open (client_Do B) (url fs name0) tr = (Inl e, tr')"
  then show "Open B fs name0 tr = (Inl (PathError ''open'' (url fs name0) e), tr')"
    by (simp add: Open_def fs_open_def)
next
  fix e
  assume "s3util_NewFile B (url fs name0) = Some e"
  then show "ReadDir B fs name0 tr = (Inl (PathError ''readdir'' (url fs name0) e), tr)"
    by (simp add: ReadDir_def)
next
  fix e
  assume "s3util_Create B tr (url fs name0) = Inl e"
  then show "Create B fs name0 tr =
      (Inl (PathError ''create'' (url fs name0) e), tr @ [S3Create (url fs name0)])"
    by (simp add: Create_def)
qed

text \<open>
  On the small store: the unreachable key \<open>down\<close> through \<open>Lstat\<close>, \<open>Stat\<close>, \<open>Open\<close>
  and \<open>Create\<close>, and a path that \<open>s3util.NewFile\<close> cannot parse through \<open>ReadDir\<close>.
\<close>

theorem adapter_errors_wrapped_witness:
  "fst (Lstat example_backend example_fs ''down'' []) =
     Inl (PathError ''lstat'' ''https://s3.test/bucket/down'' (External ''dial tcp: timeout'')) \<and>
   (\<exists>e. fst (Stat example_backend example_fs ''down'' []) =
     Inl (PathError ''lstat'' ''https://s3.test/bucket/down'' e)) \<and>
   fst (Open example_backend example_fs ''down'' []) =
     Inl (PathError ''open'' ''https://s3.test/bucket/down'' (External ''dial tcp: timeout'')) \<and>
   fst (ReadDir example_backend example_fs ''%zz'' []) =
     Inl (PathError ''readdir'' ''https://s3.test/bucket/%zz'' (External ''invalid URL escape'')) \<and>
   fst (Create example_backend example_fs ''down'' []) =
     Inl (PathError ''create'' ''https://s3.test/bucket/down'' (External ''dial tcp: timeout''))"
proof -
  note ev = url_example_down url_example_escape example_backend_def example_RoundTrip_def
  note th = adapter_errors_wrapped [of example_backend example_fs _ "[]"]
  have l: "Lstat example_backend example_fs ''down'' [] =
      (Inl (PathError ''lstat'' ''https://s3.test/bucket/down'' (External ''dial tcp: timeout'')),
       [HTTP \<lparr>Method = ''GET'', URL = ''https://s3.test/bucket?prefix=down/&max-keys=1&'',
               Range = []\<rparr>,
        HTTP \<lparr>Method = ''HEAD'', URL = ''https://s3.test/bucket/down'', Range = []\<rparr>])"
    by (simp add: Lstat_def lstat_def lstat_probe_def client_Do_def TrimPrefix_def Clean_def
        clean_step_def list_url_example ev example_response_def example_xml_Decode_def)
  have s: "\<exists>e. fst (Stat example_backend example_fs ''down'' []) =
      Inl (PathError ''lstat'' ''https://s3.test/bucket/down'' e)"
    using th [of "''down''", THEN conjunct2, THEN conjunct1, THEN spec, THEN spec, THEN mp,
        OF l [folded Stat_def]] l
    by (simp add: Stat_def url_example_down)
  have o: "s3util_Open (client_Do example_backend) (url example_fs ''down'') [] =
      (Inl (External ''dial tcp: timeout''),
       [HTTP \<lparr>Method = ''GET'', URL = ''https://s3.test/bucket/down'', Range = []\<rparr>])"
    by (simp add: s3util_Open_def client_Do_def ev)
  have n: "s3util_NewFile example_backend (url example_fs ''%zz'') =
      Some (External ''invalid URL escape'')"
    by (simp add: ev)
  have c: "s3util_Create example_backend [] (url example_fs ''down'') =
      Inl (External ''dial tcp: timeout'')"
    by (simp add: ev)
  note open_down = th [of "''down''", THEN conjunct2, THEN conjunct2, THEN conjunct1,
      THEN spec, THEN spec, THEN mp, OF o]
  note readdir_bad = th [of "''%zz''", THEN conjunct2, THEN conjunct2, THEN conjunct2,
      THEN conjunct1, THEN spec, THEN mp, OF n]
  note create_down = th [of "''down''", THEN conjunct2, THEN conjunct2, THEN conjunct2,
      THEN conjunct2, THEN spec, THEN mp, OF c]
  show ?thesis
    using l s open_down readdir_bad create_down
    by (simp add: url_example_down url_example_escape)
qed

text \<open>
  The claim as stated covers \<open>Remove\<close> and the reads of the reader. On the small store,
  removing a key that is not there returns the error of \<open>s3util.Delete\<close> as it is: no
  \<open>os.PathError\<close>, no operation name, no path. A read on a reader just opened returns
  the plain error of \<open>Seek\<close>.
\<close>

theorem Remove_error_not_wrapped_counterexample:
  "fst (fst (Remove example_backend example_fs ''gone'' [])) =
     Some (External ''s3util: unwanted http status 404'') \<and>
   (\<forall>op path e. fst (fst (Remove example_backend example_fs ''gone'' [])) \<noteq>
      Some (PathError op path e)) \<and>
   fst (snd (fst (fst (Read example_backend fresh_reader [0] [])))) =
     Some (ErrorString ''s3vfs: must call Fetch before Seek'')"
  by (simp add: Remove_def url_example_gone example_backend_def example_Delete_def
      Read_no_stream fresh_reader_eq)

text \<open>
  C9, as the code has it. For every path, \<open>Remove\<close> makes one call of \<open>s3util.Delete\<close>
  for the URL of the path. If that call hands out a body, \<open>Remove\<close> closes it and reads
  nothing from it: what was unread stays unread. The error returned is the error of the
  delete if there is one, and otherwise what closing the body returned (nil when there
  is no body).
\<close>

theorem Remove_closes_body:
  assumes "s3util_Delete B tr (url fs name0) = (rdr, err)"
  shows "Remove B fs name0 tr =
           ((if err = None then (case rdr of None \<Rightarrow> None | Some r \<Rightarrow> closeErr r) else err,
             map_option (\<lambda>r. r\<lparr>closed := True\<rparr>) rdr),
            tr @ [S3Delete (url fs name0)])"
  using assms by (cases rdr) (simp_all add: Remove_def ReadCloser_Close_def)

theorem Remove_closes_body_witness:
  "s3util_Delete example_backend [] (url example_fs ''a/b.txt'') =
     (Some \<lparr>unread = [], closed = False, closeErr = None\<rparr>, None) \<and>
   Remove example_backend example_fs ''a/b.txt'' [] =
     ((None, Some \<lparr>unread = [], closed = True, closeErr = None\<rparr>),
      [S3Delete ''https://s3.test/bucket/a/b.txt''])"
proof -
  have d: "s3util_Delete example_backend [] (url example_fs ''a/b.txt'') =
     (Some \<lparr>unread = [], closed = False, closeErr = None\<rparr>, None)"
    by (simp add: url_example_object example_backend_def example_Delete_def)
  from Remove_closes_body [OF d] d show ?thesis
    by (simp add: url_example_object)
qed

text \<open>
  The claim as stated has the body drained. On the small store the delete of \<open>verbose\<close>
  hands out a body of two bytes; \<open>Remove\<close> returns success with the body closed and both
  bytes still unread.
\<close>

theorem Remove_does_not_drain_counterexample:
  "Remove example_backend example_fs ''verbose'' [] =
     ((None, Some \<lparr>unread = [111, 107], closed = True, closeErr = None\<rparr>),
      [S3Delete ''https://s3.test/bucket/verbose'']) \<and>
   unread \<lparr>unread = [111, 107], closed = True, closeErr = None\<rparr> \<noteq> []"
  by (simp add: Remove_def ReadCloser_Close_def url_example_verbose example_backend_def
      example_Delete_def)

end
